theory Spec2Isabelle
  imports Complex_Main
begin

section \<open>Flood and weather insights backend (src/main.py)\<close>

text \<open>
  The backend resolves a city name with a geocoding provider, fetches an hourly forecast,
  derives rolling rainfall sums and threshold risk levels, and renders advisories in
  English, Hindi and Marathi. The embedding below follows \<^verbatim>\<open>src/main.py\<close> function by
  function. The dashboard \<^verbatim>\<open>src/app.py\<close> only displays the payload and is not embedded.

  Conventions of the embedding:
  \<^item> A Python \<^verbatim>\<open>float\<close> is a \<^typ>\<open>real\<close>: sums are exact and comparisons are the
    mathematical ones. Rounding error of binary floating point, NaN and infinities are
    outside the model.
  \<^item> A Python \<^verbatim>\<open>str\<close> is the list of its Unicode code points; an ASCII literal is
    written \<open>ustr ''...''\<close>, any other character by its code point.
  \<^item> A Python \<^verbatim>\<open>int\<close> argument is an \<^typ>\<open>int\<close>.
  \<^item> A raised exception is the \<open>Inl\<close> branch of a sum.
  \<^item> The two upstream providers are parameters: functions from the request to the
    response that arrived.
\<close>

subsection \<open>Python values and builtins\<close>

type_synonym pystr = "nat list"

abbreviation (input) ustr :: "string \<Rightarrow> pystr" where
  "ustr s \<equiv> map of_char s"

text \<open>
  \<^verbatim>\<open>HTTPException(status_code, detail)\<close>; the detail messages of the source are ASCII and
  are kept as \<^typ>\<open>string\<close>.
\<close>

datatype error =
    HTTPException nat string
  | ValueError

text \<open>\<^verbatim>\<open>sum(values)\<close>: left to right, starting from 0.\<close>

definition py_sum :: "real list \<Rightarrow> real" where
  "py_sum values = foldl (+) 0 values"

text \<open>
  \<^verbatim>\<open>max(values)\<close>: the first element that no later element exceeds; raises
  \<^verbatim>\<open>ValueError\<close> on an empty list.
\<close>

fun py_max :: "real list \<Rightarrow> error + real" where
  "py_max [] = Inl ValueError"
| "py_max (x # xs) = Inr (foldl (\<lambda>m y. if y > m then y else m) x xs)"

text \<open>
  \<^verbatim>\<open>xs[i:]\<close>: a negative start counts from the end, and the start is clamped to
  \<open>0 .. len(xs)\<close>.
\<close>

definition py_slice_from :: "int \<Rightarrow> 'a list \<Rightarrow> 'a list" where
  "py_slice_from i xs =
     (let n = int (length xs);
          start = (if i < 0 then max (i + n) 0 else min i n)
      in drop (nat start) xs)"

text \<open>
  \<^verbatim>\<open>round(x, ndigits)\<close>: to the nearest multiple of \<open>10 ^ (- ndigits)\<close>, a tie going to
  the even one.
\<close>

definition round_half_even :: "real \<Rightarrow> int" where
  "round_half_even x =
     (let f = \<lfloor>x\<rfloor>; d = x - of_int f
      in if d < 1 / 2 then f
         else if d > 1 / 2 then f + 1
         else if even f then f else f + 1)"

definition py_round :: "real \<Rightarrow> nat \<Rightarrow> real" where
  "py_round x ndigits = of_int (round_half_even (x * 10 ^ ndigits)) / 10 ^ ndigits"

text \<open>\<^verbatim>\<open>sep.join(parts)\<close>.\<close>

fun join :: "pystr \<Rightarrow> pystr list \<Rightarrow> pystr" where
  "join sep [] = []"
| "join sep [p] = p"
| "join sep (p # q # ps) = p @ sep @ join sep (q # ps)"

text \<open>\<^verbatim>\<open>s.replace(old, new)\<close> for one-character \<open>old\<close> and \<open>new\<close>.\<close>

definition replace_char :: "nat \<Rightarrow> nat \<Rightarrow> pystr \<Rightarrow> pystr" where
  "replace_char old new s = map (\<lambda>c. if c = old then new else c) s"

subsection \<open>Rolling sum and variability\<close>

text \<open>
  \<^verbatim>\<open>
  def compute_rolling(values: List[float], hours: int):
      """Sum of last n hours (rolling window)."""
      if not values:
          return 0.0
      if len(values) < hours:
          return round(sum(values), 2)
      return round(sum(values[-hours:]), 2)
  \<close>
\<close>

definition compute_rolling :: "real list \<Rightarrow> int \<Rightarrow> real" where
  "compute_rolling values hours =
     (if values = [] then 0
      else if int (length values) < hours then py_round (py_sum values) 2
      else py_round (py_sum (py_slice_from (- hours) values)) 2)"

text \<open>
  \<^verbatim>\<open>compute_std\<close>: \<^verbatim>\<open>statistics.pstdev\<close>, the population standard deviation, and 0.0
  for an empty list.
\<close>

definition pstdev :: "real list \<Rightarrow> real" where
  "pstdev values =
     (let n = real (length values); mu = sum_list values / n
      in sqrt (sum_list (map (\<lambda>x. (x - mu) ^ 2) values) / n))"

definition compute_std :: "real list \<Rightarrow> real" where
  "compute_std values = (if values = [] then 0 else pstdev values)"

subsection \<open>Risk classification\<close>

text \<open>The three level names, as the strings the code compares and returns.\<close>

definition High :: pystr where "High = ustr ''High''"
definition Medium :: pystr where "Medium = ustr ''Medium''"
definition Low :: pystr where "Low = ustr ''Low''"

record risk_summary =
  flood :: pystr
  heat :: pystr
  storm :: pystr
  max_temp :: real
  max_wind :: real

text \<open>
  \<^verbatim>\<open>summarize_risks(rolling_24, temps_24, winds_24)\<close>, lines 72 to 99. The flood
  threshold is 50.0 and the medium bound is \<open>flood_threshold * 0.6\<close>. The maximum of a
  window is taken only when the window is not empty; otherwise the temperature is
  \<open>- 999\<close> and the wind is \<open>0.0\<close>.
\<close>

definition flood_threshold :: real where
  "flood_threshold = 50"

definition summarize_risks :: "real \<Rightarrow> real list \<Rightarrow> real list \<Rightarrow> error + risk_summary" where
  "summarize_risks rolling_24 temps_24 winds_24 =
     (let flood_level =
            (if rolling_24 \<ge> flood_threshold then High
             else if rolling_24 \<ge> flood_threshold * 0.6 then Medium
             else Low)
      in case (if temps_24 \<noteq> [] then py_max temps_24 else Inr (- 999)) of
           Inl e \<Rightarrow> Inl e
         | Inr max_temp_v \<Rightarrow>
             (let heat_level =
                    (if max_temp_v \<ge> 40 then High
                     else if max_temp_v \<ge> 35 then Medium
                     else Low)
              in case (if winds_24 \<noteq> [] then py_max winds_24 else Inr 0) of
                   Inl e \<Rightarrow> Inl e
                 | Inr max_wind_v \<Rightarrow>
                     (let storm_level =
                            (if max_wind_v \<ge> 15 then High
                             else if max_wind_v \<ge> 8 then Medium
                             else Low)
                      in Inr \<lparr>flood = flood_level, heat = heat_level, storm = storm_level,
                              max_temp = py_round max_temp_v 1,
                              max_wind = py_round max_wind_v 1\<rparr>)))"

text \<open>The order of the levels, \<open>Low < Medium < High\<close>; a string that is no level has no rank.\<close>

definition level_rank :: "pystr \<Rightarrow> nat option" where
  "level_rank l =
     (if l = Low then Some 0
      else if l = Medium then Some 1
      else if l = High then Some 2
      else None)"

subsection \<open>Advisory composer\<close>

text \<open>
  The clause sentences of \<^verbatim>\<open>build_bilingual_advisories\<close>, lines 112 to 136, in the order
  of the source. The dash in the English clauses is U+2014; the Hindi and Marathi clauses
  are given by their code points.
\<close>

definition en_flood_high :: pystr where
  "en_flood_high =
     ustr ''High flood risk '' @ [0x2014] @ ustr '' move livestock/equipment to higher ground.''"

definition hi_flood_high :: pystr where
  "hi_flood_high =
       [0x0909, 0x091A, 0x094D, 0x091A, 0x0020, 0x092C, 0x093E, 0x0922, 0x093C, 0x0020,
        0x091C, 0x094B, 0x0916, 0x093F, 0x092E, 0x0020, 0x2014, 0x0020, 0x092A, 0x0936,
        0x0941, 0x0927, 0x0928, 0x0020, 0x0914, 0x0930, 0x0020, 0x0909, 0x092A, 0x0915,
        0x0930, 0x0923, 0x0020, 0x0938, 0x0941, 0x0930, 0x0915, 0x094D, 0x0937, 0x093F,
        0x0924, 0x0020, 0x0938, 0x094D, 0x0925, 0x093E, 0x0928, 0x0020, 0x092A, 0x0930,
        0x0020, 0x0932, 0x0947, 0x0020, 0x091C, 0x093E, 0x090F, 0x0902, 0x0964]"

definition mr_flood_high :: pystr where
  "mr_flood_high =
       [0x0909, 0x091A, 0x094D, 0x091A, 0x0020, 0x092A, 0x0942, 0x0930, 0x0020, 0x0927,
        0x094B, 0x0915, 0x093E, 0x0020, 0x2014, 0x0020, 0x091C, 0x0928, 0x093E, 0x0935,
        0x0930, 0x0947, 0x0020, 0x0935, 0x0020, 0x0909, 0x092A, 0x0915, 0x0930, 0x0923,
        0x0947, 0x0020, 0x0909, 0x0902, 0x091A, 0x0020, 0x091C, 0x093E, 0x0917, 0x0940,
        0x0020, 0x0939, 0x0932, 0x0935, 0x093E, 0x002E]"

definition en_flood_medium :: pystr where
  "en_flood_medium =
     ustr ''Medium flood risk '' @ [0x2014] @ ustr '' inspect low-lying fields and secure valuables.''"

definition hi_flood_medium :: pystr where
  "hi_flood_medium =
       [0x092E, 0x0927, 0x094D, 0x092F, 0x092E, 0x0020, 0x092C, 0x093E, 0x0922, 0x093C,
        0x0020, 0x091C, 0x094B, 0x0916, 0x093F, 0x092E, 0x0020, 0x2014, 0x0020, 0x0928,
        0x093F, 0x091A, 0x0932, 0x0947, 0x0020, 0x0915, 0x094D, 0x0937, 0x0947, 0x0924,
        0x094D, 0x0930, 0x094B, 0x0902, 0x0020, 0x0915, 0x0940, 0x0020, 0x091C, 0x093E,
        0x0901, 0x091A, 0x0020, 0x0915, 0x0930, 0x0947, 0x0902, 0x0020, 0x0914, 0x0930,
        0x0020, 0x0938, 0x093E, 0x092E, 0x093E, 0x0928, 0x0020, 0x0938, 0x0941, 0x0930,
        0x0915, 0x094D, 0x0937, 0x093F, 0x0924, 0x0020, 0x0930, 0x0916, 0x0947, 0x0902,
        0x0964]"

definition mr_flood_medium :: pystr where
  "mr_flood_medium =
       [0x092E, 0x0927, 0x094D, 0x092F, 0x092E, 0x0020, 0x092A, 0x0942, 0x0930, 0x0020,
        0x0927, 0x094B, 0x0915, 0x093E, 0x0020, 0x2014, 0x0020, 0x0916, 0x093E, 0x0932,
        0x091A, 0x094D, 0x092F, 0x093E, 0x0020, 0x0936, 0x0947, 0x0924, 0x093E, 0x0902,
        0x091A, 0x0940, 0x0020, 0x0924, 0x092A, 0x093E, 0x0938, 0x0923, 0x0940, 0x0020,
        0x0915, 0x0930, 0x093E, 0x0020, 0x0935, 0x0020, 0x0935, 0x0938, 0x094D, 0x0924,
        0x0942, 0x0020, 0x0938, 0x0941, 0x0930, 0x0915, 0x094D, 0x0937, 0x093F, 0x0924,
        0x0020, 0x0920, 0x0947, 0x0935, 0x093E, 0x002E]"

definition en_flood_low :: pystr where
  "en_flood_low =
     ustr ''Flood risk is low '' @ [0x2014] @ ustr '' normal conditions.''"

definition en_heat_high :: pystr where
  "en_heat_high =
     ustr ''High heat '' @ [0x2014] @ ustr '' avoid field work during midday; stay hydrated.''"

definition hi_heat_high :: pystr where
  "hi_heat_high =
       [0x0909, 0x091A, 0x094D, 0x091A, 0x0020, 0x0924, 0x093E, 0x092A, 0x092E, 0x093E,
        0x0928, 0x0020, 0x2014, 0x0020, 0x0926, 0x094B, 0x092A, 0x0939, 0x0930, 0x0020,
        0x0915, 0x0947, 0x0020, 0x0926, 0x094C, 0x0930, 0x093E, 0x0928, 0x0020, 0x0916,
        0x0947, 0x0924, 0x0020, 0x0915, 0x093E, 0x0020, 0x0915, 0x093E, 0x092E, 0x0020,
        0x0928, 0x0020, 0x0915, 0x0930, 0x0947, 0x0902, 0x003B, 0x0020, 0x092A, 0x093E,
        0x0928, 0x0940, 0x0020, 0x092A, 0x093F, 0x090F, 0x0902, 0x0964]"

definition mr_heat_high :: pystr where
  "mr_heat_high =
       [0x0909, 0x091A, 0x094D, 0x091A, 0x0020, 0x0924, 0x093E, 0x092A, 0x0020, 0x2014,
        0x0020, 0x0926, 0x0941, 0x092A, 0x093E, 0x0930, 0x091A, 0x094D, 0x092F, 0x093E,
        0x0020, 0x0935, 0x0947, 0x0933, 0x0940, 0x0020, 0x0915, 0x093E, 0x092E, 0x0020,
        0x091F, 0x093E, 0x0933, 0x093E, 0x003B, 0x0020, 0x092A, 0x093E, 0x0923, 0x0940,
        0x0020, 0x092A, 0x094D, 0x092F, 0x093E, 0x002E]"

definition en_heat_medium :: pystr where
  "en_heat_medium =
     ustr ''Moderate heat '' @ [0x2014] @ ustr '' take precautions during hot hours.''"

definition hi_heat_medium :: pystr where
  "hi_heat_medium =
       [0x092E, 0x0927, 0x094D, 0x092F, 0x092E, 0x0020, 0x0924, 0x093E, 0x092A, 0x092E,
        0x093E, 0x0928, 0x0020, 0x2014, 0x0020, 0x0917, 0x0930, 0x094D, 0x092E, 0x0940,
        0x0020, 0x0915, 0x0947, 0x0020, 0x0938, 0x092E, 0x092F, 0x0020, 0x0938, 0x093E,
        0x0935, 0x0927, 0x093E, 0x0928, 0x0940, 0x0020, 0x0930, 0x0916, 0x0947, 0x0902,
        0x0964]"

definition mr_heat_medium :: pystr where
  "mr_heat_medium =
       [0x092E, 0x0927, 0x094D, 0x092F, 0x092E, 0x0020, 0x0924, 0x093E, 0x092A, 0x0020,
        0x2014, 0x0020, 0x0917, 0x0930, 0x092E, 0x0020, 0x0935, 0x0947, 0x0933, 0x0947,
        0x0924, 0x0020, 0x0916, 0x092C, 0x0930, 0x0926, 0x093E, 0x0930, 0x0940, 0x0020,
        0x0918, 0x094D, 0x092F, 0x093E, 0x002E]"

definition en_storm_high :: pystr where
  "en_storm_high =
     ustr ''High wind risk '' @ [0x2014] @ ustr '' secure shade nets and loose equipment.''"

definition hi_storm_high :: pystr where
  "hi_storm_high =
       [0x0909, 0x091A, 0x094D, 0x091A, 0x0020, 0x0939, 0x0935, 0x093E, 0x0020, 0x091C,
        0x094B, 0x0916, 0x093F, 0x092E, 0x0020, 0x2014, 0x0020, 0x0928, 0x0947, 0x091F,
        0x0020, 0x0914, 0x0930, 0x0020, 0x0922, 0x0940, 0x0932, 0x0947, 0x0020, 0x0909,
        0x092A, 0x0915, 0x0930, 0x0923, 0x0020, 0x0938, 0x0941, 0x0930, 0x0915, 0x094D,
        0x0937, 0x093F, 0x0924, 0x0020, 0x0930, 0x0916, 0x0947, 0x0902, 0x0964]"

definition mr_storm_high :: pystr where
  "mr_storm_high =
       [0x0909, 0x091A, 0x094D, 0x091A, 0x0020, 0x0935, 0x093E, 0x0930, 0x093E, 0x0020,
        0x0927, 0x094B, 0x0915, 0x093E, 0x0020, 0x2014, 0x0020, 0x091C, 0x093E, 0x0933,
        0x0940, 0x0020, 0x0906, 0x0923, 0x093F, 0x0020, 0x0922, 0x0940, 0x0932, 0x0947,
        0x0020, 0x0909, 0x092A, 0x0915, 0x0930, 0x0923, 0x0020, 0x0938, 0x0941, 0x0930,
        0x0915, 0x094D, 0x0937, 0x093F, 0x0924, 0x0020, 0x0920, 0x0947, 0x0935, 0x093E,
        0x002E]"

definition en_storm_medium :: pystr where
  "en_storm_medium =
     ustr ''Moderate winds '' @ [0x2014] @ ustr '' be cautious while working at heights.''"

record advisory_bundle =
  advisory_en :: pystr
  advisory_hi :: pystr
  advisory_mr :: pystr

text \<open>
  The function keeps three lists, \<^verbatim>\<open>advisory_en\<close>, \<^verbatim>\<open>advisory_hi\<close> and
  \<^verbatim>\<open>advisory_mr\<close>, and appends to them in three \<^verbatim>\<open>if\<close>/\<^verbatim>\<open>elif\<close> chains: flood, then
  heat, then storm. The lists are passed along as a triple (English, Hindi, Marathi).
\<close>

type_synonym clause_lists = "pystr list \<times> pystr list \<times> pystr list"

definition append_flood :: "pystr \<Rightarrow> clause_lists \<Rightarrow> clause_lists" where
  "append_flood flood_level ls =
     (case ls of (en, hi, mr) \<Rightarrow>
        if flood_level = High then
          (en @ [en_flood_high], hi @ [hi_flood_high], mr @ [mr_flood_high])
        else if flood_level = Medium then
          (en @ [en_flood_medium], hi @ [hi_flood_medium], mr @ [mr_flood_medium])
        else (en @ [en_flood_low], hi, mr))"

definition append_heat :: "pystr \<Rightarrow> clause_lists \<Rightarrow> clause_lists" where
  "append_heat heat_level ls =
     (case ls of (en, hi, mr) \<Rightarrow>
        if heat_level = High then
          (en @ [en_heat_high], hi @ [hi_heat_high], mr @ [mr_heat_high])
        else if heat_level = Medium then
          (en @ [en_heat_medium], hi @ [hi_heat_medium], mr @ [mr_heat_medium])
        else (en, hi, mr))"

definition append_storm :: "pystr \<Rightarrow> clause_lists \<Rightarrow> clause_lists" where
  "append_storm storm_level ls =
     (case ls of (en, hi, mr) \<Rightarrow>
        if storm_level = High then
          (en @ [en_storm_high], hi @ [hi_storm_high], mr @ [mr_storm_high])
        else if storm_level = Medium then
          (en @ [en_storm_medium], hi, mr)
        else (en, hi, mr))"

definition advisory_clauses :: "risk_summary \<Rightarrow> clause_lists" where
  "advisory_clauses risks =
     append_storm (storm risks) (append_heat (heat risks) (append_flood (flood risks) ([], [], [])))"

text \<open>
  Lines 138 to 142: each list is joined with one space (U+0020), and an empty Hindi or
  Marathi list is replaced by the joined English list. The argument is the dictionary that
  \<^verbatim>\<open>summarize_risks\<close> returns, so its three level keys are present.
\<close>

definition build_bilingual_advisories :: "risk_summary \<Rightarrow> advisory_bundle" where
  "build_bilingual_advisories risks =
     (case advisory_clauses risks of (en, hi, mr) \<Rightarrow>
        \<lparr>advisory_en = join (ustr '' '') en,
         advisory_hi = (if hi \<noteq> [] then join (ustr '' '') hi else join (ustr '' '') en),
         advisory_mr = (if mr \<noteq> [] then join (ustr '' '') mr else join (ustr '' '') en)\<rparr>)"

subsection \<open>Upstream providers\<close>

text \<open>
  An upstream response is its status code and its JSON body. \<^verbatim>\<open>dict.get\<close> of a key that
  may be absent is an \<open>option\<close>. The geocoding body carries the key \<^verbatim>\<open>results\<close>; the
  forecast body carries \<^verbatim>\<open>hourly\<close> with five arrays.
\<close>

record 'a response =
  status_code :: nat
  json :: 'a

record geo_match =
  name :: pystr
  country :: pystr
  latitude :: real
  longitude :: real

record geo_json =
  results :: "geo_match list option"

record hourly_json =
  time :: "pystr list option"
  temperature_2m :: "real list option"
  precipitation :: "real list option"
  relativehumidity_2m :: "real list option"
  windspeed_10m :: "real list option"

record forecast_json =
  hourly :: "hourly_json option"

record upstream =
  geocoding_api :: "pystr \<Rightarrow> geo_json response"
  forecast_api :: "real \<Rightarrow> real \<Rightarrow> forecast_json response"

text \<open>\<^verbatim>\<open>d.get(key, [])\<close>.\<close>

definition get_or_empty :: "'a list option \<Rightarrow> 'a list" where
  "get_or_empty v = (case v of None \<Rightarrow> [] | Some xs \<Rightarrow> xs)"

record coordinate =
  name :: pystr
  country :: pystr
  lat :: real
  lon :: real

text \<open>
  \<^verbatim>\<open>geocode_city\<close>, lines 24 to 41: 502 on a status other than 200, 404 when
  \<^verbatim>\<open>results\<close> is absent or empty, otherwise the first match.
\<close>

definition geocode_city :: "upstream \<Rightarrow> pystr \<Rightarrow> error + coordinate" where
  "geocode_city up city =
     (let r = geocoding_api up city
      in if status_code r \<noteq> 200 then Inl (HTTPException 502 ''Geocoding API error'')
         else case results (json r) of
                None \<Rightarrow> Inl (HTTPException 404 ''Location not found'')
              | Some [] \<Rightarrow> Inl (HTTPException 404 ''Location not found'')
              | Some (res # rest) \<Rightarrow>
                  Inr \<lparr>name = geo_match.name res, country = geo_match.country res,
                       lat = latitude res, lon = longitude res\<rparr>)"

text \<open>\<^verbatim>\<open>fetch_weather\<close>, lines 43 to 56: 502 on a status other than 200.\<close>

definition fetch_weather :: "upstream \<Rightarrow> real \<Rightarrow> real \<Rightarrow> error + forecast_json" where
  "fetch_weather up lat_v lon_v =
     (let r = forecast_api up lat_v lon_v
      in if status_code r \<noteq> 200 then Inl (HTTPException 502 ''Forecast API error'')
         else Inr (json r))"

subsection \<open>Forecast orchestrator\<close>

record forecast_payload =
  location :: pystr
  lat :: real
  lon :: real
  times :: "pystr list"
  temperature :: "real list"
  precip :: "real list"
  humidity :: "real list"
  wind :: "real list"
  rolling_24 :: real
  rolling_72 :: real
  precip_std :: real
  risk :: risk_summary
  advisory_en :: pystr
  advisory_hi :: pystr
  advisory_mr :: pystr

text \<open>
  \<^verbatim>\<open>get_full_forecast\<close>, lines 144 to 182. The risk window is the last 24 entries of
  the temperatures and of the winds, or the whole list when it has fewer than 24.
\<close>

definition get_full_forecast :: "upstream \<Rightarrow> pystr \<Rightarrow> error + forecast_payload" where
  "get_full_forecast up city =
     (case geocode_city up city of
        Inl e \<Rightarrow> Inl e
      | Inr g \<Rightarrow>
          (let lat_v = coordinate.lat g; lon_v = coordinate.lon g;
               pretty = coordinate.name g @ ustr '', '' @ coordinate.country g
           in case fetch_weather up lat_v lon_v of
                Inl e \<Rightarrow> Inl e
              | Inr w \<Rightarrow>
                  (let hourly_v =
                         (case hourly w of
                            None \<Rightarrow> \<lparr>time = None, temperature_2m = None, precipitation = None,
                                      relativehumidity_2m = None, windspeed_10m = None\<rparr>
                          | Some h \<Rightarrow> h);
                       times_v = get_or_empty (time hourly_v);
                       temps = get_or_empty (temperature_2m hourly_v);
                       precip_v = get_or_empty (precipitation hourly_v);
                       humidity_v = get_or_empty (relativehumidity_2m hourly_v);
                       wind_v = get_or_empty (windspeed_10m hourly_v);
                       rolling_24_v = compute_rolling precip_v 24;
                       rolling_72_v = compute_rolling precip_v 72;
                       std_precip = compute_std precip_v;
                       temps_24 = (if length temps \<ge> 24 then py_slice_from (- 24) temps else temps);
                       winds_24 = (if length wind_v \<ge> 24 then py_slice_from (- 24) wind_v else wind_v)
                   in case summarize_risks rolling_24_v temps_24 winds_24 of
                        Inl e \<Rightarrow> Inl e
                      | Inr risk_summary_v \<Rightarrow>
                          (let advisories = build_bilingual_advisories risk_summary_v
                           in Inr \<lparr>location = pretty, lat = lat_v, lon = lon_v,
                                   times = times_v, temperature = temps, precip = precip_v,
                                   humidity = humidity_v, wind = wind_v,
                                   rolling_24 = rolling_24_v, rolling_72 = rolling_72_v,
                                   precip_std = py_round std_precip 2,
                                   risk = risk_summary_v,
                                   advisory_en = advisory_bundle.advisory_en advisories,
                                   advisory_hi = advisory_bundle.advisory_hi advisories,
                                   advisory_mr = advisory_bundle.advisory_mr advisories\<rparr>))))"

subsection \<open>HTTP endpoints\<close>

text \<open>
  \<^verbatim>\<open>
  @app.get("/city_forecast")
  async def city_forecast(city: str):
      if not city:
          raise HTTPException(status_code=400, detail="city param required")
      data = await get_full_forecast(city)
      return data
  \<close>
  The handler receives the query parameter as a string; a request without the parameter
  is answered by the web framework and never reaches the handler.
\<close>

definition city_forecast :: "upstream \<Rightarrow> pystr \<Rightarrow> error + forecast_payload" where
  "city_forecast up city =
     (if city = [] then Inl (HTTPException 400 ''city param required'')
      else get_full_forecast up city)"

text \<open>
  \<^verbatim>\<open>
  @app.get("/export_csv")
  async def export_csv(city: str):
      data = await get_full_forecast(city)
      df = pd.DataFrame({"time": data["times"], "temperature_C": data["temperature"],
                         "precip_mm": data["precip"], "humidity_%": data["humidity"],
                         "wind_m_s": data["wind"]})
      tmp = tempfile.NamedTemporaryFile(delete=False, suffix=".csv")
      df.to_csv(tmp.name, index=False)
      return FileResponse(tmp.name, filename=f"{city.replace(' ','_')}_weather.csv")
  \<close>
  The table is kept as its five columns; building it from columns of different lengths
  raises \<^verbatim>\<open>ValueError\<close>. The temporary file is identified with the table written to it.
\<close>

record data_frame =
  col_time :: "pystr list"
  col_temperature_C :: "real list"
  col_precip_mm :: "real list"
  col_humidity :: "real list"
  col_wind_m_s :: "real list"

record file_response =
  filename :: pystr
  content :: data_frame

definition make_data_frame ::
  "pystr list \<Rightarrow> real list \<Rightarrow> real list \<Rightarrow> real list \<Rightarrow> real list \<Rightarrow> error + data_frame" where
  "make_data_frame c1 c2 c3 c4 c5 =
     (if length c2 = length c1 \<and> length c3 = length c1 \<and> length c4 = length c1
         \<and> length c5 = length c1
      then Inr \<lparr>col_time = c1, col_temperature_C = c2, col_precip_mm = c3,
                col_humidity = c4, col_wind_m_s = c5\<rparr>
      else Inl ValueError)"

definition export_csv :: "upstream \<Rightarrow> pystr \<Rightarrow> error + file_response" where
  "export_csv up city =
     (case get_full_forecast up city of
        Inl e \<Rightarrow> Inl e
      | Inr data \<Rightarrow>
          (case make_data_frame (times data) (temperature data) (precip data)
                  (humidity data) (wind data) of
             Inl e \<Rightarrow> Inl e
           | Inr df \<Rightarrow>
               Inr \<lparr>filename = replace_char 0x20 0x5F city @ ustr ''_weather.csv'',
                    content = df\<rparr>))"

subsection \<open>Notions of the specification and concrete inputs\<close>

text \<open>
  The specification speaks of "the last \<open>h\<close> entries" of a sequence: the suffix of length
  \<open>h\<close>, or the whole sequence when it is shorter. This definition follows those words; it
  is compared with the slice the code takes.
\<close>

definition last_entries :: "nat \<Rightarrow> 'a list \<Rightarrow> 'a list" where
  "last_entries h v = drop (length v - h) v"

text \<open>A geocoder that answers 200 without any match, as for a name it does not know.\<close>

definition no_match_upstream :: upstream where
  "no_match_upstream =
     \<lparr>geocoding_api = (\<lambda>city. \<lparr>status_code = 200, json = \<lparr>results = None\<rparr>\<rparr>),
      forecast_api = (\<lambda>lat_v lon_v. \<lparr>status_code = 200, json = \<lparr>hourly = None\<rparr>\<rparr>)\<rparr>"

text \<open>
  The end-to-end scenario: one match, and 30 hourly entries. The precipitation is 5 mm over
  the first 6 entries and 55 mm over the last 24; the last 24 temperatures peak at 41 and
  the last 24 winds at 5, while the first 6 entries hold larger values of both.
\<close>

definition scenario_precip :: "real list" where
  "scenario_precip =
     [1, 0, 2, 0, 2, 0,
      11, 0, 11, 0, 11, 0, 11, 0, 11, 0, 0, 0, 0, 0, 0, 0, 0, 0, 0, 0, 0, 0, 0, 0]"

definition scenario_temps :: "real list" where
  "scenario_temps =
     [45, 44, 30, 30, 30, 30,
      30, 31, 32, 33, 34, 35, 36, 37, 38, 39, 40, 41, 40, 39, 38, 37, 36, 35, 34, 33, 32, 31, 30, 30]"

definition scenario_winds :: "real list" where
  "scenario_winds =
     [20, 16, 3, 3, 3, 3,
      1, 2, 3, 4, 5, 4, 3, 2, 1, 1, 2, 3, 4, 5, 4, 3, 2, 1, 1, 2, 3, 4, 5, 4]"

definition scenario_hourly :: hourly_json where
  "scenario_hourly =
     \<lparr>time = Some (replicate 30 (ustr ''2024-07-01T00:00'')),
      temperature_2m = Some scenario_temps,
      precipitation = Some scenario_precip,
      relativehumidity_2m = Some (replicate 30 80),
      windspeed_10m = Some scenario_winds\<rparr>"

definition scenario_match :: geo_match where
  "scenario_match =
     \<lparr>geo_match.name = ustr ''Pune'', geo_match.country = ustr ''India'',
      latitude = 18.52, longitude = 73.86\<rparr>"

definition scenario_upstream :: upstream where
  "scenario_upstream =
     \<lparr>geocoding_api = (\<lambda>city. \<lparr>status_code = 200, json = \<lparr>results = Some [scenario_match]\<rparr>\<rparr>),
      forecast_api =
        (\<lambda>lat_v lon_v. \<lparr>status_code = 200, json = \<lparr>hourly = Some scenario_hourly\<rparr>\<rparr>)\<rparr>"

section \<open>Properties\<close>

subsection \<open>Builtins\<close>

lemma foldl_plus_acc: "foldl (+) a xs = a + sum_list xs" for a :: real
  by (induction xs arbitrary: a) (simp_all add: algebra_simps)

lemma py_sum_sum_list: "py_sum xs = sum_list xs"
  by (simp add: py_sum_def foldl_plus_acc)

lemma foldl_max_acc:
  "foldl (\<lambda>m y. if y > m then y else m) a xs = Max (set (a # xs))" for a :: real
proof -
  have "(\<lambda>(y::real) m. if y > m then y else m) = max"
    by (auto simp add: fun_eq_iff max_def)
  then have "foldl (\<lambda>m y. if y > m then y else m) a xs = fold max xs a"
    by (simp add: foldl_conv_fold)
  then show ?thesis
    by (simp only: Max.set_eq_fold)
qed

lemma py_max_Max: "xs \<noteq> [] \<Longrightarrow> py_max xs = Inr (Max (set xs))"
  by (cases xs) (simp_all add: foldl_max_acc)

lemma py_slice_from_neg: "0 < h \<Longrightarrow> py_slice_from (- h) xs = last_entries (nat h) xs"
  by (auto simp add: py_slice_from_def last_entries_def Let_def max_def nat_diff_distrib
      intro: arg_cong2[where f=drop])

lemma py_slice_from_nonneg: "0 \<le> i \<Longrightarrow> py_slice_from i xs = drop (nat i) xs"
  by (auto simp add: py_slice_from_def Let_def min_def)

lemma py_round_sentinel: "py_round (- 999) (Suc 0) = - 999"
  by (simp add: py_round_def round_half_even_def)

lemma py_round_zero: "py_round 0 n = 0"
  by (simp add: py_round_def round_half_even_def)

subsection \<open>Rolling sum\<close>

text \<open>For a window of at least one hour the slice is the last \<open>h\<close> entries.\<close>

lemma compute_rolling_last_entries:
  "0 < h \<Longrightarrow> compute_rolling v h =
     (if v = [] then 0
      else if int (length v) < h then py_round (sum_list v) 2
      else py_round (sum_list (last_entries (nat h) v)) 2)"
  by (simp add: compute_rolling_def py_sum_sum_list py_slice_from_neg)




text \<open>
  Claim C9, as it holds on the code: for a non-empty list, a window of 0 hours gives the
  rounded sum of the whole list, and a negative window \<open>h\<close> gives the rounded sum of the
  list without its first \<open>- h\<close> entries (the slice \<^verbatim>\<open>values[-h:]\<close> then starts at the
  positive index \<open>- h\<close>).
\<close>

theorem compute_rolling_nonpositive_window:
  "values \<noteq> [] \<Longrightarrow>
     compute_rolling values 0 = py_round (sum_list values) 2
     \<and> (\<forall>h<0. compute_rolling values h = py_round (sum_list (drop (nat (- h)) values)) 2)"
  by (simp add: compute_rolling_def py_sum_sum_list py_slice_from_nonneg)

theorem compute_rolling_nonpositive_window_witness:
  "[1, 2, 3 :: real] \<noteq> [] \<and> compute_rolling [1, 2, 3] 0 = 6 \<and> compute_rolling [1, 2, 3] (- 2) = 3"
proof -
  have ne: "[1, 2, 3 :: real] \<noteq> []" by simp
  note w = compute_rolling_nonpositive_window [OF ne]
  have "compute_rolling [1, 2, 3] 0 = 6"
    using w by (simp add: py_round_def round_half_even_def)
  moreover have "compute_rolling [1, 2, 3] (- 2) = 3"
    using w [THEN conjunct2, rule_format, of "- 2"]
    by (simp add: py_round_def round_half_even_def)
  ultimately show ?thesis by simp
qed

text \<open>
  Claim C9 as stated says that every window \<open>h \<le> 0\<close> gives the rounded sum of the whole
  list. It fails at \<open>[1.0, 2.0, 3.0]\<close> and \<open>h = - 2\<close>: the code sums \<^verbatim>\<open>values[2:]\<close> and
  returns 3.0, not 6.0.
\<close>

theorem compute_rolling_negative_window_counterexample:
  "[1, 2, 3 :: real] \<noteq> [] \<and> (- 2 :: int) \<le> 0 \<and> int (length [1, 2, 3 :: real]) \<ge> - 2
   \<and> compute_rolling [1, 2, 3] (- 2) = 3
   \<and> py_round (sum_list [1, 2, 3]) 2 = 6"
  by (simp add: compute_rolling_def py_sum_def py_slice_from_def py_round_def round_half_even_def)

subsection \<open>Risk classification\<close>

lemma levels_distinct:
  "High \<noteq> Medium" "High \<noteq> Low" "Medium \<noteq> Low" "Medium \<noteq> High" "Low \<noteq> High" "Low \<noteq> Medium"
  by (simp_all add: High_def Medium_def Low_def)

lemma summarize_risks_total: "\<exists>s. summarize_risks r ts ws = Inr s"
  by (cases ts; cases ws) (simp_all add: summarize_risks_def Let_def)

lemma summarize_risks_flood:
  "summarize_risks r ts ws = Inr s \<Longrightarrow>
     flood s = (if r \<ge> 50 then High else if r \<ge> 30 then Medium else Low)"
  by (cases ts; cases ws) (auto simp add: summarize_risks_def Let_def flood_threshold_def)

lemma summarize_risks_heat:
  "summarize_risks r ts ws = Inr s \<Longrightarrow> ts \<noteq> [] \<Longrightarrow>
     heat s = (if Max (set ts) \<ge> 40 then High else if Max (set ts) \<ge> 35 then Medium else Low)"
  by (cases ws) (auto simp add: summarize_risks_def Let_def py_max_Max simp del: py_max.simps)

lemma summarize_risks_storm:
  "summarize_risks r ts ws = Inr s \<Longrightarrow> ws \<noteq> [] \<Longrightarrow>
     storm s = (if Max (set ws) \<ge> 15 then High else if Max (set ws) \<ge> 8 then Medium else Low)"
  by (cases ts) (auto simp add: summarize_risks_def Let_def py_max_Max simp del: py_max.simps)

lemma summarize_risks_empty_temps:
  "summarize_risks r [] ws = Inr s \<Longrightarrow> max_temp s = - 999 \<and> heat s = Low"
  by (cases ws) (auto simp add: summarize_risks_def Let_def py_round_sentinel)

lemma summarize_risks_empty_winds:
  "summarize_risks r ts [] = Inr s \<Longrightarrow> max_wind s = 0 \<and> storm s = Low"
  by (cases ts) (auto simp add: summarize_risks_def Let_def py_round_zero)

lemma summarize_risks_levels:
  "summarize_risks r ts ws = Inr s \<Longrightarrow>
     flood s \<in> {Low, Medium, High} \<and> heat s \<in> {Low, Medium, High} \<and> storm s \<in> {Low, Medium, High}"
  by (cases ts; cases ws) (auto simp add: summarize_risks_def Let_def)

text \<open>
  Claim C1: the classifier assigns levels by inclusive lower bounds, first match winning.
  Flood is High iff \<open>rolling_24 \<ge> 50\<close>, Medium iff it is below 50 and at least 30, Low
  iff it is below 30; heat is High, Medium or Low by the bounds 40 and 35 on the maximum
  temperature of the window; storm by the bounds 15 and 8 on the maximum wind of the
  window. The maximum of a window exists when the window is not empty. The witness
  evaluates the documented boundary values 50, 49.999, 30 and 29.999, the temperatures 40,
  35 and 34.999, and the winds 15 and 8.
\<close>

theorem summarize_risks_thresholds:
  "\<exists>s. summarize_risks r ts ws = Inr s
     \<and> (flood s = High \<longleftrightarrow> r \<ge> 50)
     \<and> (flood s = Medium \<longleftrightarrow> r \<ge> 30 \<and> r < 50)
     \<and> (flood s = Low \<longleftrightarrow> r < 30)
     \<and> (ts \<noteq> [] \<longrightarrow>
          (heat s = High \<longleftrightarrow> Max (set ts) \<ge> 40)
        \<and> (heat s = Medium \<longleftrightarrow> Max (set ts) \<ge> 35 \<and> Max (set ts) < 40)
        \<and> (heat s = Low \<longleftrightarrow> Max (set ts) < 35))
     \<and> (ws \<noteq> [] \<longrightarrow>
          (storm s = High \<longleftrightarrow> Max (set ws) \<ge> 15)
        \<and> (storm s = Medium \<longleftrightarrow> Max (set ws) \<ge> 8 \<and> Max (set ws) < 15)
        \<and> (storm s = Low \<longleftrightarrow> Max (set ws) < 8))"
proof -
  obtain s where s: "summarize_risks r ts ws = Inr s"
    using summarize_risks_total by blast
  have f: "(flood s = High \<longleftrightarrow> r \<ge> 50) \<and> (flood s = Medium \<longleftrightarrow> r \<ge> 30 \<and> r < 50)
      \<and> (flood s = Low \<longleftrightarrow> r < 30)"
    using summarize_risks_flood [OF s] by (simp add: levels_distinct)
  have h: "(heat s = High \<longleftrightarrow> Max (set ts) \<ge> 40)
      \<and> (heat s = Medium \<longleftrightarrow> Max (set ts) \<ge> 35 \<and> Max (set ts) < 40)
      \<and> (heat s = Low \<longleftrightarrow> Max (set ts) < 35)" if "ts \<noteq> []"
    using summarize_risks_heat [OF s that] by (simp add: levels_distinct)
  have w: "(storm s = High \<longleftrightarrow> Max (set ws) \<ge> 15)
      \<and> (storm s = Medium \<longleftrightarrow> Max (set ws) \<ge> 8 \<and> Max (set ws) < 15)
      \<and> (storm s = Low \<longleftrightarrow> Max (set ws) < 8)" if "ws \<noteq> []"
    using summarize_risks_storm [OF s that] by (simp add: levels_distinct)
  from s f h w show ?thesis by blast
qed

theorem summarize_risks_thresholds_witness:
  "(\<exists>s. summarize_risks 50 [39, 40] [15, 2] = Inr s
        \<and> flood s = High \<and> heat s = High \<and> storm s = High)
   \<and> (\<exists>s. summarize_risks 49.999 [35, 20] [8, 1] = Inr s
        \<and> flood s = Medium \<and> heat s = Medium \<and> storm s = Medium)
   \<and> (\<exists>s. summarize_risks 30 [34.999, 20] [7.999] = Inr s
        \<and> flood s = Medium \<and> heat s = Low \<and> storm s = Low)
   \<and> (\<exists>s. summarize_risks 29.999 [10] [3] = Inr s
        \<and> flood s = Low \<and> heat s = Low \<and> storm s = Low)"
proof -
  have "\<exists>s. summarize_risks 50 [39, 40] [15, 2] = Inr s
        \<and> flood s = High \<and> heat s = High \<and> storm s = High"
    using summarize_risks_thresholds [of 50 "[39, 40]" "[15, 2]"] by simp blast
  moreover have "\<exists>s. summarize_risks 49.999 [35, 20] [8, 1] = Inr s
        \<and> flood s = Medium \<and> heat s = Medium \<and> storm s = Medium"
    using summarize_risks_thresholds [of "49.999" "[35, 20]" "[8, 1]"] by simp blast
  moreover have "\<exists>s. summarize_risks 30 [34.999, 20] [7.999] = Inr s
        \<and> flood s = Medium \<and> heat s = Low \<and> storm s = Low"
    using summarize_risks_thresholds [of 30 "[34.999, 20]" "[7.999]"] by simp blast
  moreover have "\<exists>s. summarize_risks 29.999 [10] [3] = Inr s
        \<and> flood s = Low \<and> heat s = Low \<and> storm s = Low"
    using summarize_risks_thresholds [of "29.999" "[10]" "[3]"] by simp blast
  ultimately show ?thesis by blast
qed

text \<open>
  Claim C4: for every input the classifier returns a level for each of flood, heat and
  storm, and never raises. With an empty temperature window \<open>max_temp\<close> is the sentinel
  \<open>- 999\<close> and heat is Low; with an empty wind window \<open>max_wind\<close> is 0.0 and storm is
  Low.
\<close>

theorem summarize_risks_definite:
  "\<exists>s. summarize_risks r ts ws = Inr s
     \<and> flood s \<in> {Low, Medium, High} \<and> heat s \<in> {Low, Medium, High}
     \<and> storm s \<in> {Low, Medium, High}
     \<and> (ts = [] \<longrightarrow> max_temp s = - 999 \<and> heat s = Low)
     \<and> (ws = [] \<longrightarrow> max_wind s = 0 \<and> storm s = Low)"
proof -
  obtain s where s: "summarize_risks r ts ws = Inr s"
    using summarize_risks_total by blast
  have "max_temp s = - 999 \<and> heat s = Low" if "ts = []"
    using s that summarize_risks_empty_temps by blast
  moreover have "max_wind s = 0 \<and> storm s = Low" if "ws = []"
    using s that summarize_risks_empty_winds by blast
  ultimately show ?thesis
    using s summarize_risks_levels [OF s] by blast
qed

theorem summarize_risks_definite_witness:
  "\<exists>s. summarize_risks 12 [] [] = Inr s
     \<and> flood s \<in> {Low, Medium, High}
     \<and> max_temp s = - 999 \<and> heat s = Low \<and> max_wind s = 0 \<and> storm s = Low"
  using summarize_risks_definite [of 12 "[]" "[]"] by simp blast

text \<open>
  Claim C5: flood classification is monotonic in \<open>rolling_24\<close>. For \<open>a \<le> b\<close> and the
  same temperature and wind windows, the flood level for \<open>a\<close> is at most the flood level
  for \<open>b\<close> in the order \<open>Low < Medium < High\<close>.
\<close>

theorem flood_level_monotone:
  "a \<le> b \<Longrightarrow>
     \<exists>sa sb i j. summarize_risks a ts ws = Inr sa \<and> summarize_risks b ts ws = Inr sb
       \<and> level_rank (flood sa) = Some i \<and> level_rank (flood sb) = Some j \<and> i \<le> j"
proof -
  assume ab: "a \<le> b"
  obtain sa where sa: "summarize_risks a ts ws = Inr sa"
    using summarize_risks_total by blast
  obtain sb where sb: "summarize_risks b ts ws = Inr sb"
    using summarize_risks_total by blast
  have "\<exists>i j. level_rank (flood sa) = Some i \<and> level_rank (flood sb) = Some j \<and> i \<le> j"
    using ab summarize_risks_flood [OF sa] summarize_risks_flood [OF sb]
    by (simp add: level_rank_def levels_distinct)
  with sa sb show ?thesis by blast
qed

theorem flood_level_monotone_witness:
  "(29.999 :: real) \<le> 50
   \<and> (\<exists>sa sb i j. summarize_risks 29.999 [41] [5] = Inr sa \<and> summarize_risks 50 [41] [5] = Inr sb
         \<and> level_rank (flood sa) = Some i \<and> level_rank (flood sb) = Some j \<and> i \<le> j)"
proof -
  have le: "(29.999 :: real) \<le> 50" by simp
  show ?thesis
    using le flood_level_monotone [OF le, of "[41]" "[5]"] by simp
qed

subsection \<open>Advisory composer\<close>

lemma en_clauses_nonempty:
  "en_flood_high \<noteq> []" "en_flood_medium \<noteq> []" "en_flood_low \<noteq> []"
  "en_heat_high \<noteq> []" "en_heat_medium \<noteq> []"
  "en_storm_high \<noteq> []" "en_storm_medium \<noteq> []"
  by (simp_all add: en_flood_high_def en_flood_medium_def en_flood_low_def en_heat_high_def
      en_heat_medium_def en_storm_high_def en_storm_medium_def)

lemma hi_clauses_nonempty:
  "hi_flood_high \<noteq> []" "hi_flood_medium \<noteq> []" "hi_heat_high \<noteq> []" "hi_heat_medium \<noteq> []"
  "hi_storm_high \<noteq> []"
  by (simp_all add: hi_flood_high_def hi_flood_medium_def hi_heat_high_def hi_heat_medium_def
      hi_storm_high_def)

lemma mr_clauses_nonempty:
  "mr_flood_high \<noteq> []" "mr_flood_medium \<noteq> []" "mr_heat_high \<noteq> []" "mr_heat_medium \<noteq> []"
  "mr_storm_high \<noteq> []"
  by (simp_all add: mr_flood_high_def mr_flood_medium_def mr_heat_high_def mr_heat_medium_def
      mr_storm_high_def)

lemma join_Cons_nonempty: "c \<noteq> [] \<Longrightarrow> join sep (c # cs) \<noteq> []"
  by (cases cs) simp_all

text \<open>
  The English list starts with a flood clause; the Hindi and the Marathi list are empty or
  start with one of their own clauses.
\<close>

lemma advisory_clauses_heads:
  "\<exists>en hi mr. advisory_clauses risks = (en, hi, mr)
     \<and> (\<exists>c cs. en = c # cs \<and> c \<noteq> [])
     \<and> (hi = [] \<or> (\<exists>c cs. hi = c # cs \<and> c \<noteq> []))
     \<and> (mr = [] \<or> (\<exists>c cs. mr = c # cs \<and> c \<noteq> []))"
  by (simp add: advisory_clauses_def append_flood_def append_heat_def append_storm_def
      en_clauses_nonempty hi_clauses_nonempty mr_clauses_nonempty)

lemma build_bilingual_advisories_nonempty:
  "advisory_bundle.advisory_en (build_bilingual_advisories risks) \<noteq> []
   \<and> advisory_bundle.advisory_hi (build_bilingual_advisories risks) \<noteq> []
   \<and> advisory_bundle.advisory_mr (build_bilingual_advisories risks) \<noteq> []"
proof -
  obtain en hi mr where ls: "advisory_clauses risks = (en, hi, mr)"
    and en: "\<exists>c cs. en = c # cs \<and> c \<noteq> []"
    and hi: "hi = [] \<or> (\<exists>c cs. hi = c # cs \<and> c \<noteq> [])"
    and mr: "mr = [] \<or> (\<exists>c cs. mr = c # cs \<and> c \<noteq> [])"
    using advisory_clauses_heads [of risks] by blast
  have j_en: "join (ustr '' '') en \<noteq> []"
    using en join_Cons_nonempty by blast
  have j_hi: "hi \<noteq> [] \<Longrightarrow> join (ustr '' '') hi \<noteq> []"
    using hi join_Cons_nonempty by blast
  have j_mr: "mr \<noteq> [] \<Longrightarrow> join (ustr '' '') mr \<noteq> []"
    using mr join_Cons_nonempty by blast
  show ?thesis
    using j_en j_hi j_mr by (simp add: build_bilingual_advisories_def ls)
qed

lemma flood_low_clause:
  "flood risks = Low \<Longrightarrow> \<exists>cs. fst (advisory_clauses risks) = en_flood_low # cs"
  by (simp add: advisory_clauses_def append_flood_def append_heat_def append_storm_def
      levels_distinct)

text \<open>
  Claim C6: for every risk summary, each advisory is its clause list joined with single
  spaces, and a Hindi (respectively Marathi) clause list that is empty after the three
  risk dimensions makes that advisory equal to the whole English advisory. For flood Low,
  heat Low and storm Medium the English list is the flood-low clause and the English-only
  storm-medium clause, both other lists are empty, and \<open>advisory_hi\<close> and \<open>advisory_mr\<close>
  equal \<open>advisory_en\<close>.
\<close>

theorem build_bilingual_advisories_assembly:
  "\<exists>en hi mr. advisory_clauses risks = (en, hi, mr)
     \<and> advisory_bundle.advisory_en (build_bilingual_advisories risks) = join (ustr '' '') en
     \<and> (hi \<noteq> [] \<longrightarrow>
          advisory_bundle.advisory_hi (build_bilingual_advisories risks) = join (ustr '' '') hi)
     \<and> (hi = [] \<longrightarrow>
          advisory_bundle.advisory_hi (build_bilingual_advisories risks) =
          advisory_bundle.advisory_en (build_bilingual_advisories risks))
     \<and> (mr \<noteq> [] \<longrightarrow>
          advisory_bundle.advisory_mr (build_bilingual_advisories risks) = join (ustr '' '') mr)
     \<and> (mr = [] \<longrightarrow>
          advisory_bundle.advisory_mr (build_bilingual_advisories risks) =
          advisory_bundle.advisory_en (build_bilingual_advisories risks))
     \<and> (flood risks = Low \<and> heat risks = Low \<and> storm risks = Medium \<longrightarrow>
          en = [en_flood_low, en_storm_medium] \<and> hi = [] \<and> mr = []
          \<and> advisory_bundle.advisory_en (build_bilingual_advisories risks) =
              en_flood_low @ ustr '' '' @ en_storm_medium
          \<and> advisory_bundle.advisory_hi (build_bilingual_advisories risks) =
              advisory_bundle.advisory_en (build_bilingual_advisories risks)
          \<and> advisory_bundle.advisory_mr (build_bilingual_advisories risks) =
              advisory_bundle.advisory_en (build_bilingual_advisories risks))"
proof -
  obtain en hi mr where ls: "advisory_clauses risks = (en, hi, mr)"
    by (cases "advisory_clauses risks")
  have ex: "en = [en_flood_low, en_storm_medium] \<and> hi = [] \<and> mr = []"
    if "flood risks = Low \<and> heat risks = Low \<and> storm risks = Medium"
    using ls that
    by (simp add: advisory_clauses_def append_flood_def append_heat_def append_storm_def
        levels_distinct)
  show ?thesis
    using ex by (auto simp add: build_bilingual_advisories_def ls)
qed

theorem build_bilingual_advisories_assembly_witness:
  "advisory_bundle.advisory_en (build_bilingual_advisories
       \<lparr>flood = Low, heat = Low, storm = Medium, max_temp = 30, max_wind = 9\<rparr>) =
     ustr ''Flood risk is low '' @ [0x2014] @ ustr '' normal conditions. Moderate winds ''
       @ [0x2014] @ ustr '' be cautious while working at heights.''
   \<and> advisory_bundle.advisory_hi (build_bilingual_advisories
       \<lparr>flood = Low, heat = Low, storm = Medium, max_temp = 30, max_wind = 9\<rparr>) =
     advisory_bundle.advisory_en (build_bilingual_advisories
       \<lparr>flood = Low, heat = Low, storm = Medium, max_temp = 30, max_wind = 9\<rparr>)
   \<and> advisory_bundle.advisory_mr (build_bilingual_advisories
       \<lparr>flood = Low, heat = Low, storm = Medium, max_temp = 30, max_wind = 9\<rparr>) =
     advisory_bundle.advisory_en (build_bilingual_advisories
       \<lparr>flood = Low, heat = Low, storm = Medium, max_temp = 30, max_wind = 9\<rparr>)
   \<and> advisory_bundle.advisory_en (build_bilingual_advisories
       \<lparr>flood = High, heat = Low, storm = Low, max_temp = 30, max_wind = 2\<rparr>) = en_flood_high
   \<and> advisory_bundle.advisory_hi (build_bilingual_advisories
       \<lparr>flood = High, heat = Low, storm = Low, max_temp = 30, max_wind = 2\<rparr>) = hi_flood_high
   \<and> advisory_bundle.advisory_mr (build_bilingual_advisories
       \<lparr>flood = High, heat = Low, storm = Low, max_temp = 30, max_wind = 2\<rparr>) = mr_flood_high"
proof -
  let ?a = "\<lparr>flood = Low, heat = Low, storm = Medium, max_temp = 30, max_wind = 9\<rparr>"
  let ?b = "\<lparr>flood = High, heat = Low, storm = Low, max_temp = 30, max_wind = 2\<rparr>"
  have a: "advisory_bundle.advisory_en (build_bilingual_advisories ?a) =
        en_flood_low @ ustr '' '' @ en_storm_medium
      \<and> advisory_bundle.advisory_hi (build_bilingual_advisories ?a) =
        advisory_bundle.advisory_en (build_bilingual_advisories ?a)
      \<and> advisory_bundle.advisory_mr (build_bilingual_advisories ?a) =
        advisory_bundle.advisory_en (build_bilingual_advisories ?a)"
    using build_bilingual_advisories_assembly [of ?a] by auto
  have cl: "advisory_clauses ?b = ([en_flood_high], [hi_flood_high], [mr_flood_high])"
    by (simp add: advisory_clauses_def append_flood_def append_heat_def append_storm_def
        levels_distinct)
  have b: "advisory_bundle.advisory_en (build_bilingual_advisories ?b) = en_flood_high
      \<and> advisory_bundle.advisory_hi (build_bilingual_advisories ?b) = hi_flood_high
      \<and> advisory_bundle.advisory_mr (build_bilingual_advisories ?b) = mr_flood_high"
    using build_bilingual_advisories_assembly [of ?b] by (auto simp add: cl)
  have "en_flood_low @ ustr '' '' @ en_storm_medium =
      ustr ''Flood risk is low '' @ [0x2014] @ ustr '' normal conditions. Moderate winds ''
        @ [0x2014] @ ustr '' be cautious while working at heights.''"
    by (simp add: en_flood_low_def en_storm_medium_def)
  with a b show ?thesis by simp
qed

text \<open>
  Claim C7: for every risk summary whose flood, heat and storm levels are Low, Medium or
  High, \<open>advisory_en\<close> is a non-empty string; when flood is Low the English list starts
  with the flood-low clause.
\<close>

theorem advisory_en_nonempty:
  "flood risks \<in> {Low, Medium, High} \<Longrightarrow> heat risks \<in> {Low, Medium, High} \<Longrightarrow>
   storm risks \<in> {Low, Medium, High} \<Longrightarrow>
     advisory_bundle.advisory_en (build_bilingual_advisories risks) \<noteq> []
     \<and> (flood risks = Low \<longrightarrow> (\<exists>cs. fst (advisory_clauses risks) = en_flood_low # cs))"
  using build_bilingual_advisories_nonempty [of risks] flood_low_clause [of risks] by blast

theorem advisory_en_nonempty_witness:
  "flood \<lparr>flood = Low, heat = Medium, storm = High, max_temp = 36, max_wind = 16\<rparr>
     \<in> {Low, Medium, High}
   \<and> heat \<lparr>flood = Low, heat = Medium, storm = High, max_temp = 36, max_wind = 16\<rparr>
     \<in> {Low, Medium, High}
   \<and> storm \<lparr>flood = Low, heat = Medium, storm = High, max_temp = 36, max_wind = 16\<rparr>
     \<in> {Low, Medium, High}
   \<and> advisory_bundle.advisory_en (build_bilingual_advisories
        \<lparr>flood = Low, heat = Medium, storm = High, max_temp = 36, max_wind = 16\<rparr>) \<noteq> []
   \<and> (\<exists>cs. fst (advisory_clauses
        \<lparr>flood = Low, heat = Medium, storm = High, max_temp = 36, max_wind = 16\<rparr>) =
        en_flood_low # cs)"
  using advisory_en_nonempty
    [of "\<lparr>flood = Low, heat = Medium, storm = High, max_temp = 36, max_wind = 16\<rparr>"]
  by simp

text \<open>
  Claim C10: for every risk summary whose flood, heat and storm levels are Low, Medium or
  High, the three advisories \<open>advisory_en\<close>, \<open>advisory_hi\<close> and \<open>advisory_mr\<close> are all
  non-empty strings.
\<close>

theorem advisories_all_nonempty:
  "flood risks \<in> {Low, Medium, High} \<Longrightarrow> heat risks \<in> {Low, Medium, High} \<Longrightarrow>
   storm risks \<in> {Low, Medium, High} \<Longrightarrow>
     advisory_bundle.advisory_en (build_bilingual_advisories risks) \<noteq> []
     \<and> advisory_bundle.advisory_hi (build_bilingual_advisories risks) \<noteq> []
     \<and> advisory_bundle.advisory_mr (build_bilingual_advisories risks) \<noteq> []"
  using build_bilingual_advisories_nonempty [of risks] by blast

theorem advisories_all_nonempty_witness:
  "flood \<lparr>flood = Low, heat = Low, storm = Low, max_temp = 20, max_wind = 1\<rparr>
     \<in> {Low, Medium, High}
   \<and> heat \<lparr>flood = Low, heat = Low, storm = Low, max_temp = 20, max_wind = 1\<rparr>
     \<in> {Low, Medium, High}
   \<and> storm \<lparr>flood = Low, heat = Low, storm = Low, max_temp = 20, max_wind = 1\<rparr>
     \<in> {Low, Medium, High}
   \<and> advisory_bundle.advisory_en (build_bilingual_advisories
        \<lparr>flood = Low, heat = Low, storm = Low, max_temp = 20, max_wind = 1\<rparr>) \<noteq> []
   \<and> advisory_bundle.advisory_hi (build_bilingual_advisories
        \<lparr>flood = Low, heat = Low, storm = Low, max_temp = 20, max_wind = 1\<rparr>) \<noteq> []
   \<and> advisory_bundle.advisory_mr (build_bilingual_advisories
        \<lparr>flood = Low, heat = Low, storm = Low, max_temp = 20, max_wind = 1\<rparr>) \<noteq> []"
  using advisories_all_nonempty
    [of "\<lparr>flood = Low, heat = Low, storm = Low, max_temp = 20, max_wind = 1\<rparr>"]
  by simp

subsection \<open>Orchestrator and endpoints\<close>

lemma geocode_city_match:
  "status_code (geocoding_api up city) = 200 \<Longrightarrow>
   results (json (geocoding_api up city)) = Some (g # gs) \<Longrightarrow>
     geocode_city up city =
       Inr \<lparr>name = geo_match.name g, country = geo_match.country g,
            lat = latitude g, lon = longitude g\<rparr>"
  by (simp add: geocode_city_def)

lemma geocode_city_upstream_error:
  "status_code (geocoding_api up city) \<noteq> 200 \<Longrightarrow>
     geocode_city up city = Inl (HTTPException 502 ''Geocoding API error'')"
  by (simp add: geocode_city_def)

lemma geocode_city_not_found:
  "status_code (geocoding_api up city) = 200 \<Longrightarrow>
   results (json (geocoding_api up city)) = None \<or> results (json (geocoding_api up city)) = Some [] \<Longrightarrow>
     geocode_city up city = Inl (HTTPException 404 ''Location not found'')"
  by (auto simp add: geocode_city_def)

lemma fetch_weather_upstream_error:
  "status_code (forecast_api up la lo) \<noteq> 200 \<Longrightarrow>
     fetch_weather up la lo = Inl (HTTPException 502 ''Forecast API error'')"
  by (simp add: fetch_weather_def)

lemma fetch_weather_ok:
  "status_code (forecast_api up la lo) = 200 \<Longrightarrow>
     fetch_weather up la lo = Inr (json (forecast_api up la lo))"
  by (simp add: fetch_weather_def)

lemma get_full_forecast_geocode_error:
  "geocode_city up city = Inl e \<Longrightarrow> get_full_forecast up city = Inl e"
  by (simp add: get_full_forecast_def)

lemma get_full_forecast_fetch_error:
  "geocode_city up city = Inr g \<Longrightarrow>
   fetch_weather up (coordinate.lat g) (coordinate.lon g) = Inl e \<Longrightarrow>
     get_full_forecast up city = Inl e"
  by (simp add: get_full_forecast_def Let_def)

text \<open>
  With both providers answering 200 and a match, the payload carries the rolling sums of
  the precipitation array and the risk summary of the last-24 windows.
\<close>

lemma get_full_forecast_ok:
  assumes "geocode_city up city = Inr g"
    and "fetch_weather up (coordinate.lat g) (coordinate.lon g) = Inr w"
    and "hourly w = Some h"
    and "summarize_risks (compute_rolling (get_or_empty (precipitation h)) 24)
           (if length (get_or_empty (temperature_2m h)) \<ge> 24
            then py_slice_from (- 24) (get_or_empty (temperature_2m h))
            else get_or_empty (temperature_2m h))
           (if length (get_or_empty (windspeed_10m h)) \<ge> 24
            then py_slice_from (- 24) (get_or_empty (windspeed_10m h))
            else get_or_empty (windspeed_10m h)) = Inr s"
  shows "\<exists>pl. get_full_forecast up city = Inr pl
     \<and> rolling_24 pl = compute_rolling (get_or_empty (precipitation h)) 24
     \<and> rolling_72 pl = compute_rolling (get_or_empty (precipitation h)) 72
     \<and> risk pl = s"
  using assms by (simp add: get_full_forecast_def Let_def)

lemma py_round_55: "py_round 55 2 = 55"
  by (simp add: py_round_def round_half_even_def)

lemma py_round_60: "py_round 60 2 = 60"
  by (simp add: py_round_def round_half_even_def)

text \<open>
  Claim C3: when the city resolves to exactly one location and the forecast returns 30
  hourly entries whose precipitation totals 55 mm over the last 24 entries and 5 mm over
  the 6 entries before them, with a maximum temperature of 41 and a maximum wind of 5 in
  the last-24 window, the orchestrator returns a payload with \<open>rolling_24 = 55.0\<close>,
  \<open>rolling_72 = 60.0\<close> and the risk levels flood High, heat High, storm Low.
\<close>

theorem end_to_end_scenario:
  assumes geo_status: "status_code (geocoding_api up city) = 200"
    and geo_one: "results (json (geocoding_api up city)) = Some [g]"
    and fc_status: "status_code (forecast_api up (latitude g) (longitude g)) = 200"
    and fc_hourly: "hourly (json (forecast_api up (latitude g) (longitude g))) = Some h"
    and arrays: "precipitation h = Some p" "temperature_2m h = Some ts" "windspeed_10m h = Some ws"
    and lens: "length p = 30" "length ts = 30" "length ws = 30"
    and rain_24: "sum_list (last_entries 24 p) = 55"
    and rain_before: "sum_list (take 6 p) = 5"
    and temp_max: "Max (set (last_entries 24 ts)) = 41"
    and wind_max: "Max (set (last_entries 24 ws)) = 5"
  shows "\<exists>pl. get_full_forecast up city = Inr pl
     \<and> rolling_24 pl = 55 \<and> rolling_72 pl = 60
     \<and> flood (risk pl) = High \<and> heat (risk pl) = High \<and> storm (risk pl) = Low"
proof -
  let ?g = "\<lparr>name = geo_match.name g, country = geo_match.country g,
            lat = latitude g, lon = longitude g\<rparr>"
  have g: "geocode_city up city = Inr ?g"
    using geo_status geo_one by (rule geocode_city_match)
  have w: "fetch_weather up (coordinate.lat ?g) (coordinate.lon ?g) =
      Inr (json (forecast_api up (latitude g) (longitude g)))"
    using fc_status by (simp add: fetch_weather_ok)
  have p_ne: "p \<noteq> []" and ts_ne: "last_entries 24 ts \<noteq> []" and ws_ne: "last_entries 24 ws \<noteq> []"
    using lens by (auto simp add: last_entries_def)
  have r24: "compute_rolling p 24 = 55"
    using p_ne lens rain_24 by (simp add: compute_rolling_last_entries py_round_55)
  have "last_entries 24 p = drop 6 p"
    using lens by (simp add: last_entries_def)
  then have "sum_list p = 60"
    using rain_24 rain_before sum_list_append [of "take 6 p" "drop 6 p"] by simp
  then have r72: "compute_rolling p 72 = 60"
    using p_ne lens by (simp add: compute_rolling_last_entries py_round_60)
  obtain s where s: "summarize_risks 55 (last_entries 24 ts) (last_entries 24 ws) = Inr s"
    using summarize_risks_total by blast
  have levels: "flood s = High \<and> heat s = High \<and> storm s = Low"
    using summarize_risks_flood [OF s] summarize_risks_heat [OF s ts_ne]
      summarize_risks_storm [OF s ws_ne] temp_max wind_max by simp
  have "summarize_risks (compute_rolling (get_or_empty (precipitation h)) 24)
           (if length (get_or_empty (temperature_2m h)) \<ge> 24
            then py_slice_from (- 24) (get_or_empty (temperature_2m h))
            else get_or_empty (temperature_2m h))
           (if length (get_or_empty (windspeed_10m h)) \<ge> 24
            then py_slice_from (- 24) (get_or_empty (windspeed_10m h))
            else get_or_empty (windspeed_10m h)) = Inr s"
    using s r24 arrays lens py_slice_from_neg [of 24 ts] py_slice_from_neg [of 24 ws]
    by (simp add: get_or_empty_def)
  from get_full_forecast_ok [OF g w fc_hourly this]
  show ?thesis
    using r24 r72 levels arrays by (auto simp add: get_or_empty_def)
qed

theorem end_to_end_scenario_witness:
  "length scenario_precip = 30 \<and> length scenario_temps = 30 \<and> length scenario_winds = 30
   \<and> sum_list (last_entries 24 scenario_precip) = 55 \<and> sum_list (take 6 scenario_precip) = 5
   \<and> Max (set (last_entries 24 scenario_temps)) = 41
   \<and> Max (set (last_entries 24 scenario_winds)) = 5
   \<and> (\<exists>pl. get_full_forecast scenario_upstream (ustr ''Pune'') = Inr pl
         \<and> rolling_24 pl = 55 \<and> rolling_72 pl = 60
         \<and> flood (risk pl) = High \<and> heat (risk pl) = High \<and> storm (risk pl) = Low)"
proof -
  have h1: "status_code (geocoding_api scenario_upstream (ustr ''Pune'')) = 200"
    by (simp add: scenario_upstream_def)
  have h2: "results (json (geocoding_api scenario_upstream (ustr ''Pune''))) = Some [scenario_match]"
    by (simp add: scenario_upstream_def)
  have h3: "status_code (forecast_api scenario_upstream (latitude scenario_match)
      (longitude scenario_match)) = 200"
    by (simp add: scenario_upstream_def)
  have h4: "hourly (json (forecast_api scenario_upstream (latitude scenario_match)
      (longitude scenario_match))) = Some scenario_hourly"
    by (simp add: scenario_upstream_def)
  have a1: "precipitation scenario_hourly = Some scenario_precip"
    and a2: "temperature_2m scenario_hourly = Some scenario_temps"
    and a3: "windspeed_10m scenario_hourly = Some scenario_winds"
    by (simp_all add: scenario_hourly_def)
  have l1: "length scenario_precip = 30" by (simp add: scenario_precip_def)
  have l2: "length scenario_temps = 30" by (simp add: scenario_temps_def)
  have l3: "length scenario_winds = 30" by (simp add: scenario_winds_def)
  have s1: "sum_list (last_entries 24 scenario_precip) = 55"
    by (simp add: last_entries_def scenario_precip_def)
  have s2: "sum_list (take 6 scenario_precip) = 5"
    by (simp add: scenario_precip_def)
  have m1: "Max (set (last_entries 24 scenario_temps)) = 41"
    by (simp add: last_entries_def scenario_temps_def)
  have m2: "Max (set (last_entries 24 scenario_winds)) = 5"
    by (simp add: last_entries_def scenario_winds_def)
  from end_to_end_scenario [OF h1 h2 h3 h4 a1 a2 a3 l1 l2 l3 s1 s2 m1 m2] l1 l2 l3 s1 s2 m1 m2
  show ?thesis by blast
qed

text \<open>The error responses of the two endpoints.\<close>

lemma city_forecast_empty_city:
  "city_forecast up [] = Inl (HTTPException 400 ''city param required'')"
  by (simp add: city_forecast_def)

lemma city_forecast_not_found:
  "city \<noteq> [] \<Longrightarrow> status_code (geocoding_api up city) = 200 \<Longrightarrow>
   results (json (geocoding_api up city)) = None \<or> results (json (geocoding_api up city)) = Some [] \<Longrightarrow>
     city_forecast up city = Inl (HTTPException 404 ''Location not found'')"
  by (simp add: city_forecast_def geocode_city_not_found get_full_forecast_geocode_error)

lemma city_forecast_geocoding_error:
  "city \<noteq> [] \<Longrightarrow> status_code (geocoding_api up city) \<noteq> 200 \<Longrightarrow>
     city_forecast up city = Inl (HTTPException 502 ''Geocoding API error'')"
  by (simp add: city_forecast_def geocode_city_upstream_error get_full_forecast_geocode_error)

lemma city_forecast_forecast_error:
  "city \<noteq> [] \<Longrightarrow> status_code (geocoding_api up city) = 200 \<Longrightarrow>
   results (json (geocoding_api up city)) = Some (g # gs) \<Longrightarrow>
   status_code (forecast_api up (latitude g) (longitude g)) \<noteq> 200 \<Longrightarrow>
     city_forecast up city = Inl (HTTPException 502 ''Forecast API error'')"
  by (simp add: city_forecast_def get_full_forecast_def geocode_city_match
      fetch_weather_upstream_error)

lemma export_csv_not_found:
  "status_code (geocoding_api up city) = 200 \<Longrightarrow>
   results (json (geocoding_api up city)) = None \<or> results (json (geocoding_api up city)) = Some [] \<Longrightarrow>
     export_csv up city = Inl (HTTPException 404 ''Location not found'')"
  by (simp add: export_csv_def geocode_city_not_found get_full_forecast_geocode_error)

lemma export_csv_geocoding_error:
  "status_code (geocoding_api up city) \<noteq> 200 \<Longrightarrow>
     export_csv up city = Inl (HTTPException 502 ''Geocoding API error'')"
  by (simp add: export_csv_def geocode_city_upstream_error get_full_forecast_geocode_error)

lemma export_csv_forecast_error:
  "status_code (geocoding_api up city) = 200 \<Longrightarrow>
   results (json (geocoding_api up city)) = Some (g # gs) \<Longrightarrow>
   status_code (forecast_api up (latitude g) (longitude g)) \<noteq> 200 \<Longrightarrow>
     export_csv up city = Inl (HTTPException 502 ''Forecast API error'')"
  by (simp add: export_csv_def get_full_forecast_def geocode_city_match
      fetch_weather_upstream_error)

text \<open>No path of \<^verbatim>\<open>export_csv\<close> answers 400, whatever the city and the providers.\<close>

lemma summarize_risks_no_error: "summarize_risks r ts ws \<noteq> Inl e"
  using summarize_risks_total [of r ts ws] by auto

lemma get_full_forecast_status:
  "get_full_forecast up city = Inl (HTTPException code d) \<Longrightarrow> code = 404 \<or> code = 502"
  by (auto simp add: get_full_forecast_def geocode_city_def fetch_weather_def Let_def
      summarize_risks_no_error split: sum.splits if_splits option.splits list.splits)

lemma export_csv_never_400: "export_csv up city \<noteq> Inl (HTTPException 400 d)"
proof
  assume e: "export_csv up city = Inl (HTTPException 400 d)"
  then have "get_full_forecast up city = Inl (HTTPException 400 d)"
    by (auto simp add: export_csv_def make_data_frame_def split: sum.splits if_splits)
  then show False
    using get_full_forecast_status by fastforce
qed

text \<open>
  Claim C8: \<^verbatim>\<open>/city_forecast\<close> answers 400 for a missing or empty city, 404 when the
  geocoder has no match and 502 when a provider answers a non-success status, and
  \<^verbatim>\<open>/export_csv\<close> has the same error conditions, the 400 included.

  The lemmas above give the 400, 404 and 502 of \<^verbatim>\<open>city_forecast\<close> and the 404 and 502 of
  \<^verbatim>\<open>export_csv\<close>. The handler \<^verbatim>\<open>export_csv\<close> lacks the check of its sibling: for the
  empty city and a geocoder that finds no match, \<^verbatim>\<open>city_forecast\<close> answers 400 and
  \<^verbatim>\<open>export_csv\<close> answers 404.
\<close>

theorem export_csv_empty_city:
  "city_forecast no_match_upstream [] = Inl (HTTPException 400 ''city param required'')
   \<and> export_csv no_match_upstream [] = Inl (HTTPException 404 ''Location not found'')"
  by (simp add: city_forecast_def export_csv_def get_full_forecast_def geocode_city_def
      no_match_upstream_def)

end
